theory Spec2Isabelle
  imports Main "HOL-Library.AList"
begin

section \<open>The online voting application (app.py)\<close>

text \<open>
  The program is a Streamlit script over an SQLite file with three tables. The model keeps
  the tables as lists of rows inside one \<open>database\<close> record, threads that record through
  every function that opens a connection, and keeps \<open>st.session_state\<close> as a second record.
  The clock (\<open>get_india_time()\<close>, and SQLite's \<open>CURRENT_TIMESTAMP\<close> for the defaulted
  columns) is the argument \<open>now\<close>: an instant on one time line, counted as an integer.
  Store failures other than a constraint violation (the file cannot be opened or written)
  are not modelled.
\<close>

subsection \<open>Python strings\<close>

text \<open>
  A Python \<open>str\<close> is a sequence of Unicode code points, and \<open>len\<close> counts them: the
  register numbers and names the users type are lists of code points, and \<open>length\<close> is
  \<open>len\<close>. The texts that the program itself writes (messages, status words, the two
  candidates) stay string literals; \<open>str\<close> gives the code points of a literal.
\<close>

type_synonym pystr = "nat list"

definition str :: "string \<Rightarrow> pystr" where
  "str s = map of_char s"

text \<open>
  \<open>str.strip()\<close>, \<open>str.upper()\<close> and \<open>str.title()\<close> are code of the Python library,
  not of the program. Every function of the program that calls them takes them as the
  parameter \<open>py\<close>, and every general statement below holds for all values of it, hence
  for the library as it is.
\<close>

record str_methods =
  str_strip :: "pystr \<Rightarrow> pystr"
  str_upper :: "pystr \<Rightarrow> pystr"
  str_title :: "pystr \<Rightarrow> pystr"

text \<open>
  For the examples the parameter needs a value. \<open>latin1_methods\<close> is what CPython
  computes on strings of code points below 256. White space is tab to carriage return, the
  separators 28 to 31, the blank, U+0085 and U+00A0. Upper case raises a to z and the
  letters from U+00E0 to U+00FE except the division sign, turns the sharp s into SS, the
  micro sign into U+039C and U+00FF into U+0178; title case differs only on the sharp s
  (Ss); lower case lowers A to Z and U+00C0 to U+00DE except the multiplication sign. The
  cased characters are those letters and the two ordinal indicators. \<open>title()\<close> gives a
  character its title case when the character before it is not cased, and its lower case
  otherwise. Code points from 256 on are left as they are by this value, which is not what
  the library does with them; only the examples and the statements that name
  \<open>latin1_methods\<close> use it, on code points below 256.
\<close>

definition cp_isspace :: "nat \<Rightarrow> bool" where
  "cp_isspace c = ((9 \<le> c \<and> c \<le> 13) \<or> (28 \<le> c \<and> c \<le> 32) \<or> c = 133 \<or> c = 160)"

definition cp_upper :: "nat \<Rightarrow> nat list" where
  "cp_upper c =
     (if 97 \<le> c \<and> c \<le> 122 then [c - 32]
      else if c = 181 then [924]
      else if c = 223 then [83, 83]
      else if 224 \<le> c \<and> c \<le> 254 \<and> c \<noteq> 247 then [c - 32]
      else if c = 255 then [376]
      else [c])"

definition cp_title :: "nat \<Rightarrow> nat list" where
  "cp_title c = (if c = 223 then [83, 115] else cp_upper c)"

definition cp_lower :: "nat \<Rightarrow> nat" where
  "cp_lower c =
     (if 65 \<le> c \<and> c \<le> 90 then c + 32
      else if 192 \<le> c \<and> c \<le> 222 \<and> c \<noteq> 215 then c + 32
      else c)"

definition cp_iscased :: "nat \<Rightarrow> bool" where
  "cp_iscased c =
     ((65 \<le> c \<and> c \<le> 90) \<or> (97 \<le> c \<and> c \<le> 122) \<or> c = 170 \<or> c = 181 \<or> c = 186
      \<or> (192 \<le> c \<and> c \<le> 255 \<and> c \<noteq> 215 \<and> c \<noteq> 247))"

definition latin1_strip :: "pystr \<Rightarrow> pystr" where
  "latin1_strip s = rev (dropWhile cp_isspace (rev (dropWhile cp_isspace s)))"

definition latin1_upper :: "pystr \<Rightarrow> pystr" where
  "latin1_upper s = concat (map cp_upper s)"


fun latin1_title_from :: "bool \<Rightarrow> pystr \<Rightarrow> pystr" where
  "latin1_title_from previous_is_cased [] = []"
| "latin1_title_from previous_is_cased (c # cs) =
     (if previous_is_cased then [cp_lower c] else cp_title c)
       @ latin1_title_from (cp_iscased c) cs"

definition latin1_title :: "pystr \<Rightarrow> pystr" where
  "latin1_title s = latin1_title_from False s"

definition latin1_methods :: str_methods where
  "latin1_methods =
     \<lparr>str_strip = latin1_strip, str_upper = latin1_upper, str_title = latin1_title\<rparr>"

subsection \<open>The tables (\<open>init_database\<close>)\<close>

record student_row =
  register_number :: pystr
  name :: pystr
  registration_time :: int

record vote_row =
  vote_id :: nat
  vote_register_number :: pystr
  candidate :: string
  vote_time :: int

text \<open>
  A row of \<open>voting_settings\<close>. A stored time is the ISO text of a zone-aware datetime or
  NULL; the model keeps the instant that \<open>datetime.fromisoformat\<close> reads back from it, or
  \<open>None\<close>. \<open>get_voting_settings\<close> hands the row on as a dictionary under the keys
  \<open>start_time\<close>, \<open>end_time\<close>, \<open>voting_enabled\<close>, \<open>auto_declare_winner\<close>; the fields carry
  those names.
\<close>

record settings_row =
  settings_id :: nat
  start_time :: "int option"
  end_time :: "int option"
  voting_enabled :: bool
  auto_declare_winner :: bool
  created_at :: int
  updated_at :: int

text \<open>
  \<open>students\<close> has \<open>register_number\<close> as its primary key. \<open>votes\<close> has the surrogate key
  \<open>id INTEGER PRIMARY KEY AUTOINCREMENT\<close> (the counter is \<open>votes_sequence\<close>), no
  uniqueness constraint on \<open>register_number\<close>, and a foreign key to \<open>students\<close>. SQLite
  checks a foreign key only on a connection where \<open>PRAGMA foreign_keys\<close> is on; the
  program never issues the pragma, so whether the key is checked is the default of the
  SQLite library in use (off, unless the library was built otherwise). That default is the
  field \<open>foreign_keys\<close>.
\<close>

record database =
  students :: "student_row list"
  votes :: "vote_row list"
  votes_sequence :: nat
  voting_settings :: "settings_row list"
  foreign_keys :: bool

definition init_database :: "bool \<Rightarrow> database" where
  "init_database fk =
     \<lparr>students = [], votes = [], votes_sequence = 0, voting_settings = [], foreign_keys = fk\<rparr>"

subsection \<open>Registration and ballots\<close>

definition student_keys :: "database \<Rightarrow> pystr list" where
  "student_keys db = map register_number (students db)"

definition vote_keys :: "database \<Rightarrow> pystr list" where
  "vote_keys db = map vote_register_number (votes db)"

text \<open>
  \<open>register_student\<close>: clean both inputs, then insert. The insert raises
  \<open>sqlite3.IntegrityError\<close> when the primary key is already there, and the handler returns
  the pair with \<open>False\<close>; nothing has been written then.
\<close>

definition register_student ::
  "str_methods \<Rightarrow> int \<Rightarrow> pystr \<Rightarrow> pystr \<Rightarrow> database \<Rightarrow> (bool \<times> string) \<times> database" where
  "register_student py now register_number_arg name_arg db =
     (let register_number' = str_upper py (str_strip py register_number_arg);
          name' = str_title py (str_strip py name_arg)
      in if register_number' \<in> set (student_keys db)
         then ((False, ''This register number is already registered!''), db)
         else ((True, ''Registration successful!''),
               db\<lparr>students := students db @
                     [\<lparr>register_number = register_number', name = name',
                       registration_time = now\<rparr>]\<rparr>))"

definition is_student_registered :: "str_methods \<Rightarrow> pystr \<Rightarrow> database \<Rightarrow> bool" where
  "is_student_registered py register_number_arg db =
     (filter (\<lambda>s. register_number s = str_upper py (str_strip py register_number_arg))
        (students db) \<noteq> [])"

definition has_student_voted :: "str_methods \<Rightarrow> pystr \<Rightarrow> database \<Rightarrow> bool" where
  "has_student_voted py register_number_arg db =
     (filter (\<lambda>v. vote_register_number v = str_upper py (str_strip py register_number_arg))
        (votes db) \<noteq> [])"

text \<open>
  \<open>cast_vote\<close>: one INSERT into \<open>votes\<close> and nothing before it. With string arguments
  the only constraint the statement can violate is the foreign key, where it is checked;
  the bare \<open>except\<close> then returns \<open>False\<close> and the row is not written.
\<close>

definition cast_vote ::
  "str_methods \<Rightarrow> int \<Rightarrow> pystr \<Rightarrow> string \<Rightarrow> database \<Rightarrow> bool \<times> database" where
  "cast_vote py now register_number_arg candidate_arg db =
     (let register_number' = str_upper py (str_strip py register_number_arg)
      in if foreign_keys db \<and> register_number' \<notin> set (student_keys db)
         then (False, db)
         else (True,
               db\<lparr>votes := votes db @
                     [\<lparr>vote_id = votes_sequence db + 1,
                       vote_register_number = register_number',
                       candidate = candidate_arg, vote_time = now\<rparr>],
                  votes_sequence := votes_sequence db + 1\<rparr>))"

definition get_student_count :: "database \<Rightarrow> nat" where
  "get_student_count db = length (students db)"

definition get_total_votes :: "database \<Rightarrow> nat" where
  "get_total_votes db = length (votes db)"

text \<open>The number of vote rows stored under a key.\<close>

definition votes_recorded :: "pystr \<Rightarrow> database \<Rightarrow> nat" where
  "votes_recorded key db = count_list (vote_keys db) key"

subsection \<open>The tally (\<open>get_vote_results\<close>)\<close>

text \<open>
  The query returns one row per candidate that has a vote, with its count; the rows are
  written over a dictionary that starts with both candidates at 0. The dictionary is an
  association list, assignment is \<open>AList.update\<close>.
\<close>

definition group_by_candidate :: "database \<Rightarrow> (string \<times> nat) list" where
  "group_by_candidate db =
     map (\<lambda>c. (c, count_list (map candidate (votes db)) c)) (remdups (map candidate (votes db)))"

definition get_vote_results :: "database \<Rightarrow> (string \<times> nat) list" where
  "get_vote_results db =
     fold (\<lambda>(candidate', votes') vote_dict. AList.update candidate' votes' vote_dict)
       (group_by_candidate db) [(''Messi'', 0), (''Ronaldo'', 0)]"

text \<open>
  The block that both the automatic declaration and the Declare Winner tab run on the
  tally: nothing is resolved unless at least one vote is counted. The two look-ups are
  \<open>results['Messi']\<close> and \<open>results['Ronaldo']\<close>.
\<close>

definition resolve_winner :: "(string \<times> nat) list \<Rightarrow> string option" where
  "resolve_winner results =
     (let total_votes = sum_list (map snd results)
      in if total_votes > 0 then
           (if the (map_of results ''Messi'') > the (map_of results ''Ronaldo'')
              then Some ''Messi''
            else if the (map_of results ''Ronaldo'') > the (map_of results ''Messi'')
              then Some ''Ronaldo''
            else Some ''Tie'')
         else None)"

subsection \<open>The voting window\<close>

text \<open>\<open>SELECT * FROM voting_settings ORDER BY id DESC LIMIT 1\<close>.\<close>

fun get_voting_settings_rows :: "settings_row list \<Rightarrow> settings_row option" where
  "get_voting_settings_rows [] = None"
| "get_voting_settings_rows (r # rs) =
     (case get_voting_settings_rows rs of
        None \<Rightarrow> Some r
      | Some r' \<Rightarrow> if settings_id r < settings_id r' then Some r' else Some r)"

definition get_voting_settings :: "database \<Rightarrow> settings_row option" where
  "get_voting_settings db = get_voting_settings_rows (voting_settings db)"

text \<open>
  \<open>set_voting_time\<close> deletes every row and inserts the new one, enabled; in the emptied
  table the new row gets id 1.
\<close>

definition set_voting_time ::
  "int \<Rightarrow> int option \<Rightarrow> int option \<Rightarrow> bool \<Rightarrow> database \<Rightarrow> bool \<times> database" where
  "set_voting_time now start_time_arg end_time_arg auto_declare db =
     (True,
      db\<lparr>voting_settings :=
           [\<lparr>settings_id = 1, start_time = start_time_arg, end_time = end_time_arg,
             voting_enabled = True, auto_declare_winner = auto_declare,
             created_at = now, updated_at = now\<rparr>]\<rparr>)"

definition is_voting_active :: "int \<Rightarrow> database \<Rightarrow> bool" where
  "is_voting_active current_time db =
     (case get_voting_settings db of
        None \<Rightarrow> False
      | Some settings \<Rightarrow>
          if \<not> voting_enabled settings then False
          else (case (start_time settings, end_time settings) of
                  (Some start_time', Some end_time') \<Rightarrow>
                     start_time' \<le> current_time \<and> current_time \<le> end_time'
                | _ \<Rightarrow> voting_enabled settings))"

text \<open>
  The dictionary that \<open>get_voting_time_status\<close> returns, without the display text
  (\<open>message\<close>) and the echoed bound.
\<close>

record time_status =
  status :: string
  can_vote :: bool
  time_remaining :: "int option"

definition get_voting_time_status :: "int \<Rightarrow> database \<Rightarrow> time_status" where
  "get_voting_time_status current_time db =
     (case get_voting_settings db of
        None \<Rightarrow> \<lparr>status = ''no_schedule'', can_vote = False, time_remaining = None\<rparr>
      | Some settings \<Rightarrow>
          if \<not> voting_enabled settings then
            \<lparr>status = ''disabled'', can_vote = False, time_remaining = None\<rparr>
          else (case (start_time settings, end_time settings) of
                  (Some start_time', Some end_time') \<Rightarrow>
                    if current_time < start_time' then
                      \<lparr>status = ''not_started'', can_vote = False, time_remaining = None\<rparr>
                    else if current_time > end_time' then
                      \<lparr>status = ''ended'', can_vote = False, time_remaining = None\<rparr>
                    else
                      \<lparr>status = ''active'', can_vote = True,
                       time_remaining = Some (end_time' - current_time)\<rparr>
                | _ \<Rightarrow>
                    \<lparr>status = (if voting_enabled settings then ''enabled'' else ''disabled''),
                     can_vote = voting_enabled settings, time_remaining = None\<rparr>))"

subsection \<open>Session state and the pages\<close>

record session =
  winner_declared :: bool
  declared_winner :: "string option"
  auto_declared :: bool
  auto_declaration_processed :: bool
  student_logged_in :: bool
  current_student :: "pystr option"
  registration_success :: bool

text \<open>The values \<open>init_session_state\<close> gives a session that has none yet.\<close>

definition new_session :: session where
  "new_session =
     \<lparr>winner_declared = False, declared_winner = None, auto_declared = False,
      auto_declaration_processed = False, student_logged_in = False,
      current_student = None, registration_success = False\<rparr>"

definition auto_declare_winner_if_time_ended ::
  "int \<Rightarrow> database \<Rightarrow> session \<Rightarrow> bool \<times> session" where
  "auto_declare_winner_if_time_ended now db ss =
     (case get_voting_settings db of
        None \<Rightarrow> (False, ss)
      | Some settings \<Rightarrow>
          if \<not> auto_declare_winner settings then (False, ss)
          else if status (get_voting_time_status now db) = ''ended''
                  \<and> \<not> winner_declared ss \<and> \<not> auto_declaration_processed ss
          then (case resolve_winner (get_vote_results db) of
                  Some winner \<Rightarrow>
                    (True, ss\<lparr>winner_declared := True, declared_winner := Some winner,
                              auto_declared := True, auto_declaration_processed := True\<rparr>)
                | None \<Rightarrow> (False, ss))
          else (False, ss))"

text \<open>
  \<open>init_session_state\<close> runs at every load of a page: a session that holds the values
  keeps them, and the automatic declaration is tried.
\<close>

definition init_session_state :: "int \<Rightarrow> database \<Rightarrow> session \<Rightarrow> session" where
  "init_session_state now db ss = snd (auto_declare_winner_if_time_ended now db ss)"

text \<open>
  The Set Schedule button of the admin panel: the two bounds are checked against each
  other and against the clock, the schedule is replaced, and the processed flag of the
  session is cleared.
\<close>

definition set_schedule_form ::
  "int \<Rightarrow> int \<Rightarrow> int \<Rightarrow> bool \<Rightarrow> database \<Rightarrow> session \<Rightarrow> database \<times> session" where
  "set_schedule_form india_now start_datetime end_datetime auto_declare db ss =
     (if end_datetime \<le> start_datetime then (db, ss)
      else if start_datetime < india_now then (db, ss)
      else (case set_voting_time india_now (Some start_datetime) (Some end_datetime)
                   auto_declare db of
              (True, db') \<Rightarrow> (db', ss\<lparr>auto_declaration_processed := False\<rparr>)
            | (False, db') \<Rightarrow> (db', ss)))"

text \<open>
  The registration form of \<open>show_signup_page\<close>, when it is submitted: the two fields are
  cleaned, checked, and only then passed to \<open>register_student\<close>. The first component of
  the result is what the page shows: \<open>st.error\<close> is \<open>False\<close> with the text,
  \<open>st.success\<close> is \<open>True\<close> with the text.
\<close>

definition show_signup_page ::
  "str_methods \<Rightarrow> int \<Rightarrow> pystr \<Rightarrow> pystr \<Rightarrow> database \<Rightarrow> session
     \<Rightarrow> (bool \<times> string) \<times> database \<times> session" where
  "show_signup_page py now register_number_input name_input db ss =
     (let register_number' = str_upper py (str_strip py register_number_input);
          name' = str_title py (str_strip py name_input)
      in if register_number' = [] \<or> name' = [] then
           ((False, ''Please fill in all fields!''), db, ss)
         else if length register_number' < 3 then
           ((False, ''Register number must be at least 3 characters long!''), db, ss)
         else if length name' < 2 then
           ((False, ''Name must be at least 2 characters long!''), db, ss)
         else (case register_student py now register_number' name' db of
                 ((True, message), db') \<Rightarrow>
                   ((True, message), db',
                    ss\<lparr>current_student := Some register_number',
                       student_logged_in := True, registration_success := True\<rparr>)
               | ((False, message), db') \<Rightarrow> ((False, message), db', ss)))"

text \<open>
  The voting page, for one run of the script with the two vote buttons as inputs. The
  page returns before the buttons while the window has not started, has ended or is
  disabled, while nobody is logged in, and when the logged-in student already has a vote
  row; the buttons are drawn only when \<open>can_vote\<close> holds. A vote that succeeds ends the run
  (\<open>st.rerun()\<close>).
\<close>

definition show_voting_page ::
  "str_methods \<Rightarrow> int \<Rightarrow> bool \<Rightarrow> bool \<Rightarrow> session \<Rightarrow> database \<Rightarrow> database" where
  "show_voting_page py now messi_vote ronaldo_vote ss db =
     (let time_status' = get_voting_time_status now db
      in if status time_status' = ''not_started'' then db
         else if status time_status' = ''ended'' then db
         else if status time_status' = ''disabled'' then db
         else if \<not> student_logged_in ss then db
         else (case current_student ss of
                 None \<Rightarrow> db
               | Some student \<Rightarrow>
                   if has_student_voted py student db then db
                   else if can_vote time_status' then
                     (if messi_vote \<and> fst (cast_vote py now student ''Messi'' db)
                        then snd (cast_vote py now student ''Messi'' db)
                      else if ronaldo_vote then snd (cast_vote py now student ''Ronaldo'' db)
                      else db)
                   else db))"

text \<open>A sequence of runs of the voting page, each with its clock, buttons and session.\<close>

fun voting_page_runs ::
  "str_methods \<Rightarrow> (int \<times> bool \<times> bool \<times> session) list \<Rightarrow> database \<Rightarrow> database" where
  "voting_page_runs py [] db = db"
| "voting_page_runs py ((now, messi_vote, ronaldo_vote, ss) # runs) db =
     voting_page_runs py runs (show_voting_page py now messi_vote ronaldo_vote ss db)"


fun cast_votes ::
  "str_methods \<Rightarrow> (int \<times> pystr \<times> string) list \<Rightarrow> database \<Rightarrow> database" where
  "cast_votes py [] db = db"
| "cast_votes py ((now, register_number_arg, candidate_arg) # calls) db =
     cast_votes py calls (snd (cast_vote py now register_number_arg candidate_arg db))"

text \<open>
  Two inputs name the same register number when trimming and raising to upper case, in
  this order, make them equal.
\<close>

definition same_register_number :: "str_methods \<Rightarrow> pystr \<Rightarrow> pystr \<Rightarrow> bool" where
  "same_register_number py a b =
     (str_upper py (str_strip py a) = str_upper py (str_strip py b))"

subsection \<open>A small election, for the examples\<close>

text \<open>
  One student registers, a window from 10 to 20 with automatic declaration is scheduled,
  the student votes at 15, and a session loads a page at 21. The store checks foreign keys
  here, so nothing below depends on their being off.
\<close>

abbreviation registered_db :: database where
  "registered_db \<equiv>
     snd (register_student latin1_methods 1 (str ''ab12'') (str ''ann lee'')
            (init_database True))"

abbreviation scheduled_db :: database where
  "scheduled_db \<equiv> snd (set_voting_time 2 (Some 10) (Some 20) True registered_db)"

abbreviation voted_db :: database where
  "voted_db \<equiv> snd (cast_vote latin1_methods 15 (str ''ab12'') ''Messi'' scheduled_db)"

abbreviation logged_in_session :: session where
  "logged_in_session \<equiv>
     new_session\<lparr>student_logged_in := True, current_student := Some (str ''AB12'')\<rparr>"

abbreviation declared_session :: session where
  "declared_session \<equiv> init_session_state 21 voted_db new_session"

section \<open>Properties\<close>

subsection \<open>Normalisation of register numbers\<close>

lemma same_register_number_key:
  "same_register_number py a b \<Longrightarrow>
   str_upper py (str_strip py a) = str_upper py (str_strip py b)"
  by (simp add: same_register_number_def)








lemma is_student_registered_iff:
  "is_student_registered py r db \<longleftrightarrow> str_upper py (str_strip py r) \<in> set (student_keys db)"
  by (force simp: is_student_registered_def student_keys_def filter_empty_conv)

lemma has_student_voted_iff:
  "has_student_voted py r db \<longleftrightarrow> str_upper py (str_strip py r) \<in> set (vote_keys db)"
  by (force simp: has_student_voted_def vote_keys_def filter_empty_conv)

lemma register_student_registered:
  "str_upper py (str_strip py r) \<in> set (student_keys (snd (register_student py now r n db)))"
  by (simp add: register_student_def student_keys_def Let_def)

lemma register_student_duplicate:
  "str_upper py (str_strip py r) \<in> set (student_keys db) \<Longrightarrow>
   register_student py now r n db = ((False, ''This register number is already registered!''), db)"
  by (simp add: register_student_def Let_def)






subsection \<open>Registration\<close>

text \<open>
  C6. A register number that is already stored, under its normalised key, is refused:
  \<open>register_student\<close> returns the result of its \<open>IntegrityError\<close> branch and the
  database, hence the student table and the student count, is the one it was given. In
  particular the second of two registrations of the same number, however it is spelled in
  case and surrounding blanks, is refused and changes nothing.
\<close>

theorem register_student_rejects_duplicate:
  "(is_student_registered py r db \<longrightarrow>
      register_student py now r n db =
        ((False, ''This register number is already registered!''), db)
      \<and> get_student_count (snd (register_student py now r n db)) = get_student_count db)
   \<and> (same_register_number py r' r \<longrightarrow>
      register_student py now' r' n' (snd (register_student py now r n db)) =
        ((False, ''This register number is already registered!''),
         snd (register_student py now r n db)))"
proof (intro conjI impI)
  assume reg: "is_student_registered py r db"
  then show "register_student py now r n db =
      ((False, ''This register number is already registered!''), db)"
    by (simp add: register_student_duplicate is_student_registered_iff)
  then show "get_student_count (snd (register_student py now r n db)) = get_student_count db"
    by simp
next
  assume "same_register_number py r' r"
  then have "str_upper py (str_strip py r') = str_upper py (str_strip py r)"
    by (rule same_register_number_key)
  then have "str_upper py (str_strip py r') \<in> set (student_keys (snd (register_student py now r n db)))"
    by (simp add: register_student_registered)
  then show "register_student py now' r' n' (snd (register_student py now r n db)) =
        ((False, ''This register number is already registered!''),
         snd (register_student py now r n db))"
    by (rule register_student_duplicate)
qed

theorem register_student_rejects_duplicate_witness:
  "fst (fst (register_student latin1_methods 1 (str ''2021cs001'') (str ''ann lee'') (init_database False)))
   \<and> same_register_number latin1_methods (str '' 2021CS001 '') (str ''2021cs001'')
   \<and> is_student_registered latin1_methods (str '' 2021CS001 '')
        (snd (register_student latin1_methods 1 (str ''2021cs001'') (str ''ann lee'') (init_database False)))
   \<and> register_student latin1_methods 2 (str '' 2021CS001 '') (str ''bob'') 
         (snd (register_student latin1_methods 1 (str ''2021cs001'') (str ''ann lee'') (init_database False))) =
        ((False, ''This register number is already registered!''),
         snd (register_student latin1_methods 1 (str ''2021cs001'') (str ''ann lee'') (init_database False)))
   \<and> get_student_count (snd (register_student latin1_methods 2 (str '' 2021CS001 '') (str ''bob'') 
         (snd (register_student latin1_methods 1 (str ''2021cs001'') (str ''ann lee'') (init_database False))))) = 1"
proof -
  have a: "fst (fst (register_student latin1_methods 1 (str ''2021cs001'') (str ''ann lee'') (init_database False)))"
    by code_simp
  have b: "same_register_number latin1_methods (str '' 2021CS001 '') (str ''2021cs001'')"
    by code_simp
  have c: "is_student_registered latin1_methods (str '' 2021CS001 '')
        (snd (register_student latin1_methods 1 (str ''2021cs001'') (str ''ann lee'') (init_database False)))"
    by code_simp
  have d: "get_student_count
        (snd (register_student latin1_methods 1 (str ''2021cs001'') (str ''ann lee'') (init_database False))) = 1"
    by code_simp
  note first = register_student_rejects_duplicate
         [where py = latin1_methods and r = "(str '' 2021CS001 '')" and now = 2 and n = "(str ''bob'')"
            and db = "snd (register_student latin1_methods 1 (str ''2021cs001'') (str ''ann lee'') (init_database False))"
            and r' = "(str '' 2021CS001 '')" and now' = 2 and n' = "(str ''bob'')"]
  note second = register_student_rejects_duplicate
         [where py = latin1_methods and r = "(str ''2021cs001'')" and now = 1 and n = "(str ''ann lee'')"
            and db = "init_database False"
            and r' = "(str '' 2021CS001 '')" and now' = 2 and n' = "(str ''bob'')"]
  from first second a b c d show ?thesis by simp
qed

subsection \<open>The voting window\<close>

text \<open>
  C3. For a stored schedule with both bounds, the start before the end, and voting
  enabled, the status is \<open>not_started\<close> exactly before the start, \<open>active\<close> exactly from
  the start to the end with both bounds included, and \<open>ended\<close> exactly after the end;
  \<open>can_vote\<close> (and \<open>is_voting_active\<close>) holds exactly in the active case, where the
  time remaining is the end minus the current time. The witness is the instant of the end
  itself: active, with nothing remaining.
\<close>

theorem voting_window_trichotomy:
  assumes "get_voting_settings db = Some settings"
    and "start_time settings = Some s" and "end_time settings = Some e"
    and "s < e" and "voting_enabled settings"
  shows "(status (get_voting_time_status now db) = ''not_started'') = (now < s)
       \<and> (status (get_voting_time_status now db) = ''active'') = (s \<le> now \<and> now \<le> e)
       \<and> (status (get_voting_time_status now db) = ''ended'') = (e < now)
       \<and> can_vote (get_voting_time_status now db)
            = (status (get_voting_time_status now db) = ''active'')
       \<and> is_voting_active now db = (status (get_voting_time_status now db) = ''active'')
       \<and> (status (get_voting_time_status now db) = ''active'' \<longrightarrow>
            time_remaining (get_voting_time_status now db) = Some (e - now))"
  using assms by (auto simp: get_voting_time_status_def is_voting_active_def)

theorem voting_window_trichotomy_witness:
  "get_voting_settings (snd (set_voting_time 0 (Some 10) (Some 20) True (init_database False)))
     = Some \<lparr>settings_id = 1, start_time = Some 10, end_time = Some 20,
             voting_enabled = True, auto_declare_winner = True,
             created_at = 0, updated_at = 0\<rparr>
   \<and> status (get_voting_time_status 20
        (snd (set_voting_time 0 (Some 10) (Some 20) True (init_database False)))) = ''active''
   \<and> time_remaining (get_voting_time_status 20
        (snd (set_voting_time 0 (Some 10) (Some 20) True (init_database False)))) = Some 0
   \<and> is_voting_active 20
        (snd (set_voting_time 0 (Some 10) (Some 20) True (init_database False)))"
proof -
  have a: "get_voting_settings
       (snd (set_voting_time 0 (Some 10) (Some 20) True (init_database False)))
     = Some \<lparr>settings_id = 1, start_time = Some 10, end_time = Some 20,
             voting_enabled = True, auto_declare_winner = True,
             created_at = 0, updated_at = 0\<rparr>"
    by (simp add: get_voting_settings_def set_voting_time_def init_database_def)
  from voting_window_trichotomy
         [where db = "snd (set_voting_time 0 (Some 10) (Some 20) True (init_database False))"
            and s = 10 and e = 20 and now = 20, OF a]
  show ?thesis using a by simp
qed

text \<open>
  C10. \<open>is_voting_active\<close> returns the \<open>can_vote\<close> entry of \<open>get_voting_time_status\<close>,
  for every content of the settings table and every current time.
\<close>

theorem is_voting_active_agrees_with_can_vote:
  "is_voting_active now db = can_vote (get_voting_time_status now db)"
  by (auto simp: is_voting_active_def get_voting_time_status_def
           split: option.splits)

theorem is_voting_active_agrees_with_can_vote_witness:
  "is_voting_active 20 (snd (set_voting_time 0 (Some 10) (Some 20) True (init_database False)))
   \<and> can_vote (get_voting_time_status 20
        (snd (set_voting_time 0 (Some 10) (Some 20) True (init_database False))))
   \<and> \<not> is_voting_active 21
        (snd (set_voting_time 0 (Some 10) (Some 20) True (init_database False)))
   \<and> \<not> can_vote (get_voting_time_status 5 (init_database False))"
proof -
  have a: "is_voting_active 20
      (snd (set_voting_time 0 (Some 10) (Some 20) True (init_database False)))"
    by (simp add: is_voting_active_def get_voting_settings_def set_voting_time_def
          init_database_def)
  have b: "\<not> is_voting_active 21
      (snd (set_voting_time 0 (Some 10) (Some 20) True (init_database False)))"
    by (simp add: is_voting_active_def get_voting_settings_def set_voting_time_def
          init_database_def)
  have c: "\<not> is_voting_active 5 (init_database False)"
    by (simp add: is_voting_active_def get_voting_settings_def init_database_def)
  from a b c
    is_voting_active_agrees_with_can_vote
      [of 20 "snd (set_voting_time 0 (Some 10) (Some 20) True (init_database False))"]
    is_voting_active_agrees_with_can_vote [of 5 "init_database False"]
  show ?thesis by simp
qed

subsection \<open>The tally and the winner\<close>

lemma map_of_fold_update:
  "map_of (fold (\<lambda>(k, v) d. AList.update k v d) gs d) x =
     (case map_of (rev gs) x of Some v \<Rightarrow> Some v | None \<Rightarrow> map_of d x)"
proof (induction gs arbitrary: d)
  case Nil
  show ?case by simp
next
  case (Cons g gs)
  obtain k v where g: "g = (k, v)" by (cases g)
  show ?case
    by (simp add: g Cons.IH update_conv' map_add_def split: option.splits)
qed

lemma map_of_group_by_candidate:
  "map_of (rev (group_by_candidate db)) x =
     (if x \<in> set (map candidate (votes db))
      then Some (count_list (map candidate (votes db)) x) else None)"
proof -
  have "rev (group_by_candidate db) =
      map (\<lambda>c. (c, count_list (map candidate (votes db)) c))
        (rev (remdups (map candidate (votes db))))"
    by (simp add: group_by_candidate_def rev_map)
  then show ?thesis
    by (simp add: map_of_map_restrict restrict_map_def)
qed

lemma get_vote_results_lookup:
  "x = ''Messi'' \<or> x = ''Ronaldo'' \<Longrightarrow>
   map_of (get_vote_results db) x = Some (count_list (map candidate (votes db)) x)"
  unfolding get_vote_results_def map_of_fold_update map_of_group_by_candidate
  by (auto simp: count_list_0_iff)

text \<open>
  C7. In every database the dictionary of \<open>get_vote_results\<close> has an entry for Messi and
  one for Ronaldo, each the number of vote rows for that candidate, which is 0 for a
  candidate without a vote. When the votes are Messi, Messi, Ronaldo the dictionary is
  Messi 2, Ronaldo 1.
\<close>

theorem get_vote_results_both_candidates:
  "map_of (get_vote_results db) ''Messi''
     = Some (count_list (map candidate (votes db)) ''Messi'')
   \<and> map_of (get_vote_results db) ''Ronaldo''
     = Some (count_list (map candidate (votes db)) ''Ronaldo'')
   \<and> (''Messi'' \<notin> set (map candidate (votes db)) \<longrightarrow>
        map_of (get_vote_results db) ''Messi'' = Some 0)
   \<and> (''Ronaldo'' \<notin> set (map candidate (votes db)) \<longrightarrow>
        map_of (get_vote_results db) ''Ronaldo'' = Some 0)
   \<and> (map candidate (votes db) = [''Messi'', ''Messi'', ''Ronaldo''] \<longrightarrow>
        get_vote_results db = [(''Messi'', 2), (''Ronaldo'', 1)])"
proof (intro conjI impI)
  show "map_of (get_vote_results db) ''Messi''
     = Some (count_list (map candidate (votes db)) ''Messi'')"
    by (simp add: get_vote_results_lookup)
  show "map_of (get_vote_results db) ''Ronaldo''
     = Some (count_list (map candidate (votes db)) ''Ronaldo'')"
    by (simp add: get_vote_results_lookup)
next
  assume "''Messi'' \<notin> set (map candidate (votes db))"
  then show "map_of (get_vote_results db) ''Messi'' = Some 0"
    by (simp add: get_vote_results_lookup)
next
  assume "''Ronaldo'' \<notin> set (map candidate (votes db))"
  then show "map_of (get_vote_results db) ''Ronaldo'' = Some 0"
    by (simp add: get_vote_results_lookup)
next
  assume "map candidate (votes db) = [''Messi'', ''Messi'', ''Ronaldo'']"
  then show "get_vote_results db = [(''Messi'', 2), (''Ronaldo'', 1)]"
    by (simp add: get_vote_results_def group_by_candidate_def)
qed

theorem get_vote_results_both_candidates_witness:
  "get_vote_results
     (cast_votes latin1_methods [(1, (str ''r1''), ''Messi''), (2, (str ''r2''), ''Messi''), (3, (str ''r3''), ''Ronaldo'')]
        (init_database False))
     = [(''Messi'', 2), (''Ronaldo'', 1)]
   \<and> map_of (get_vote_results
       (cast_votes latin1_methods [(1, (str ''r1''), ''Messi''), (2, (str ''r2''), ''Messi''), (3, (str ''r3''), ''Ronaldo'')]
          (init_database False))) ''Messi'' = Some 2
   \<and> ''Ronaldo'' \<notin> set (map candidate (votes
        (cast_votes latin1_methods [(1, (str ''r1''), ''Messi'')] (init_database False))))
   \<and> map_of (get_vote_results (cast_votes latin1_methods [(1, (str ''r1''), ''Messi'')] (init_database False)))
        ''Ronaldo'' = Some 0
   \<and> ''Messi'' \<notin> set (map candidate (votes (init_database False)))
   \<and> map_of (get_vote_results (init_database False)) ''Messi'' = Some 0"
proof -
  have a: "''Messi'' \<notin> set (map candidate (votes (init_database False)))"
    by code_simp
  have b: "''Ronaldo'' \<notin> set (map candidate (votes
        (cast_votes latin1_methods [(1, (str ''r1''), ''Messi'')] (init_database False))))"
    by code_simp
  have c: "count_list (map candidate (votes
       (cast_votes latin1_methods [(1, (str ''r1''), ''Messi''), (2, (str ''r2''), ''Messi''), (3, (str ''r3''), ''Ronaldo'')]
          (init_database False)))) ''Messi'' = 2"
    by code_simp
  have d: "map candidate (votes
       (cast_votes latin1_methods [(1, (str ''r1''), ''Messi''), (2, (str ''r2''), ''Messi''), (3, (str ''r3''), ''Ronaldo'')]
          (init_database False))) = [''Messi'', ''Messi'', ''Ronaldo'']"
    by code_simp
  from a b c d
    get_vote_results_both_candidates [of "init_database False"]
    get_vote_results_both_candidates
      [of "cast_votes latin1_methods [(1, (str ''r1''), ''Messi''), (2, (str ''r2''), ''Messi''), (3, (str ''r3''), ''Ronaldo'')]
          (init_database False)"]
    get_vote_results_both_candidates
      [of "cast_votes latin1_methods [(1, (str ''r1''), ''Messi'')] (init_database False)"]
  show ?thesis by simp
qed

text \<open>
  C4, as stated, fails where no vote has been cast: the tally is 0 to 0 and no winner is
  resolved, in particular not a tie.
\<close>

theorem resolve_winner_no_votes_counterexample:
  "get_vote_results (init_database False) = [(''Messi'', 0), (''Ronaldo'', 0)]
   \<and> resolve_winner (get_vote_results (init_database False)) = None
   \<and> resolve_winner (get_vote_results (init_database False)) \<noteq> Some ''Tie''"
  by code_simp

text \<open>
  C4, amended. For every tally that counts at least one vote, the candidate with the
  strictly greater count is the winner and equal counts give \<open>Tie\<close>; for a tally without
  a vote no winner is resolved.
\<close>

theorem resolve_winner_with_votes:
  assumes "map_of results ''Messi'' = Some a" and "map_of results ''Ronaldo'' = Some b"
  shows "(0 < sum_list (map snd results) \<longrightarrow>
            (b < a \<longrightarrow> resolve_winner results = Some ''Messi'')
          \<and> (a < b \<longrightarrow> resolve_winner results = Some ''Ronaldo'')
          \<and> (a = b \<longrightarrow> resolve_winner results = Some ''Tie''))
       \<and> (sum_list (map snd results) = 0 \<longrightarrow> resolve_winner results = None)"
proof -
  define total where "total = sum_list (map snd results)"
  have "resolve_winner results =
      (if 0 < total then
         (if b < a then Some ''Messi'' else if a < b then Some ''Ronaldo'' else Some ''Tie'')
       else None)"
    by (simp only: resolve_winner_def Let_def total_def assms option.sel)
  then have "(0 < total \<longrightarrow>
            (b < a \<longrightarrow> resolve_winner results = Some ''Messi'')
          \<and> (a < b \<longrightarrow> resolve_winner results = Some ''Ronaldo'')
          \<and> (a = b \<longrightarrow> resolve_winner results = Some ''Tie''))
       \<and> (total = 0 \<longrightarrow> resolve_winner results = None)"
    by auto
  then show ?thesis by (simp only: total_def)
qed

theorem resolve_winner_with_votes_witness:
  "resolve_winner [(''Messi'', 2), (''Ronaldo'', 1)] = Some ''Messi''
   \<and> resolve_winner [(''Messi'', 1), (''Ronaldo'', 3)] = Some ''Ronaldo''
   \<and> resolve_winner [(''Messi'', 2), (''Ronaldo'', 2)] = Some ''Tie''
   \<and> resolve_winner [(''Messi'', 0), (''Ronaldo'', 0)] = None"
proof -
  note w = resolve_winner_with_votes [where results = "[(''Messi'', 2), (''Ronaldo'', 1)]"
      and a = 2 and b = 1]
    resolve_winner_with_votes [where results = "[(''Messi'', 1), (''Ronaldo'', 3)]"
      and a = 1 and b = 3]
    resolve_winner_with_votes [where results = "[(''Messi'', 2), (''Ronaldo'', 2)]"
      and a = 2 and b = 2]
    resolve_winner_with_votes [where results = "[(''Messi'', 0), (''Ronaldo'', 0)]"
      and a = 0 and b = 0]
  from w show ?thesis by simp
qed

subsection \<open>The registration form\<close>

text \<open>
  C8, as stated, fails for \<open>register_student\<close>: the function checks no length. It
  registers the two-character number \<open>''ab''\<close> with the one-character name \<open>''x''\<close>, and
  the empty number with the empty name.
\<close>

theorem register_student_accepts_short_input_counterexample:
  "length (str_upper latin1_methods (str_strip latin1_methods (str ''ab''))) < 3
   \<and> length (str_title latin1_methods (str_strip latin1_methods (str ''x''))) < 2
   \<and> fst (register_student latin1_methods 1 (str ''ab'') (str ''x'') (init_database False))
       = (True, ''Registration successful!'')
   \<and> students (snd (register_student latin1_methods 1 (str ''ab'') (str ''x'')
        (init_database False)))
       = [\<lparr>register_number = str ''AB'', name = str ''X'', registration_time = 1\<rparr>]
   \<and> fst (register_student latin1_methods 2 [] [] (init_database False))
       = (True, ''Registration successful!'')
   \<and> student_keys (snd (register_student latin1_methods 2 [] [] (init_database False)))
       = [[]]"
  by code_simp

text \<open>
  C8, amended. The input is validated by the registration form, before the call. The
  submitted form cleans both fields; when the cleaned register number is shorter than 3
  characters (empty included) or the cleaned name is shorter than 2, the form shows one of
  its three input errors and neither the database nor the session changes; otherwise, and
  only then, it calls \<open>register_student\<close> on the cleaned values, whose result and
  database are the form's. \<open>register_student\<close> itself validates nothing: it succeeds
  exactly when the register number is not registered yet.
\<close>

theorem signup_form_validates_input:
  "(length (str_upper py (str_strip py register_number_input)) < 3
      \<or> length (str_title py (str_strip py name_input)) < 2 \<longrightarrow>
      fst (fst (show_signup_page py now register_number_input name_input db ss)) = False
      \<and> snd (fst (show_signup_page py now register_number_input name_input db ss))
          \<in> {''Please fill in all fields!'',
              ''Register number must be at least 3 characters long!'',
              ''Name must be at least 2 characters long!''}
      \<and> snd (show_signup_page py now register_number_input name_input db ss) = (db, ss))
   \<and> (3 \<le> length (str_upper py (str_strip py register_number_input))
      \<and> 2 \<le> length (str_title py (str_strip py name_input)) \<longrightarrow>
      fst (show_signup_page py now register_number_input name_input db ss)
        = fst (register_student py now (str_upper py (str_strip py register_number_input))
                 (str_title py (str_strip py name_input)) db)
      \<and> fst (snd (show_signup_page py now register_number_input name_input db ss))
        = snd (register_student py now (str_upper py (str_strip py register_number_input))
                 (str_title py (str_strip py name_input)) db))
   \<and> fst (fst (register_student py now register_number_input name_input db))
       = (\<not> is_student_registered py register_number_input db)"
proof (intro conjI impI)
  assume short: "length (str_upper py (str_strip py register_number_input)) < 3
      \<or> length (str_title py (str_strip py name_input)) < 2"
  then show "fst (fst (show_signup_page py now register_number_input name_input db ss)) = False"
    by (auto simp: show_signup_page_def Let_def)
  from short show "snd (fst (show_signup_page py now register_number_input name_input db ss))
          \<in> {''Please fill in all fields!'',
              ''Register number must be at least 3 characters long!'',
              ''Name must be at least 2 characters long!''}"
    by (auto simp: show_signup_page_def Let_def)
  from short
  show "snd (show_signup_page py now register_number_input name_input db ss) = (db, ss)"
    by (auto simp: show_signup_page_def Let_def)
next
  assume long: "3 \<le> length (str_upper py (str_strip py register_number_input))
      \<and> 2 \<le> length (str_title py (str_strip py name_input))"
  then have ne: "str_upper py (str_strip py register_number_input) \<noteq> []"
    "str_title py (str_strip py name_input) \<noteq> []"
    by auto
  obtain ok message db' where
    r: "register_student py now (str_upper py (str_strip py register_number_input))
          (str_title py (str_strip py name_input)) db = ((ok, message), db')"
    by (metis surj_pair)
  from long ne show "fst (show_signup_page py now register_number_input name_input db ss)
        = fst (register_student py now (str_upper py (str_strip py register_number_input))
                 (str_title py (str_strip py name_input)) db)"
    by (cases ok) (simp_all add: show_signup_page_def Let_def r)
  from long ne
  show "fst (snd (show_signup_page py now register_number_input name_input db ss))
        = snd (register_student py now (str_upper py (str_strip py register_number_input))
                 (str_title py (str_strip py name_input)) db)"
    by (cases ok) (simp_all add: show_signup_page_def Let_def r)
next
  show "fst (fst (register_student py now register_number_input name_input db))
       = (\<not> is_student_registered py register_number_input db)"
    by (simp add: register_student_def Let_def is_student_registered_iff)
qed

theorem signup_form_validates_input_witness:
  "length (str_upper latin1_methods (str_strip latin1_methods (str '' ab ''))) < 3
   \<and> show_signup_page latin1_methods 1 (str '' ab '') (str ''ann lee'') (init_database False)
        new_session
       = ((False, ''Register number must be at least 3 characters long!''),
          init_database False, new_session)
   \<and> 3 \<le> length (str_upper latin1_methods (str_strip latin1_methods [32, 223, 49]))
   \<and> 2 \<le> length (str_title latin1_methods (str_strip latin1_methods (str '' ann lee '')))
   \<and> fst (show_signup_page latin1_methods 1 [32, 223, 49] (str '' ann lee '')
        (init_database False) new_session)
       = (True, ''Registration successful!'')
   \<and> students (fst (snd (show_signup_page latin1_methods 1 [32, 223, 49] (str '' ann lee '')
        (init_database False) new_session)))
       = [\<lparr>register_number = str ''SS1'', name = str ''Ann Lee'', registration_time = 1\<rparr>]
   \<and> length (str_title latin1_methods (str_strip latin1_methods [97, 160])) < 2
   \<and> show_signup_page latin1_methods 1 (str ''ab12'') [97, 160] (init_database False)
        new_session
       = ((False, ''Name must be at least 2 characters long!''),
          init_database False, new_session)
   \<and> \<not> is_student_registered latin1_methods (str ''ab'') (init_database False)
   \<and> fst (fst (register_student latin1_methods 1 (str ''ab'') (str ''x'')
        (init_database False)))"
proof -
  have a: "length (str_upper latin1_methods (str_strip latin1_methods (str '' ab ''))) < 3"
    by code_simp
  have b: "3 \<le> length (str_upper latin1_methods (str_strip latin1_methods [32, 223, 49]))
      \<and> 2 \<le> length (str_title latin1_methods (str_strip latin1_methods (str '' ann lee '')))"
    by code_simp
  have c: "snd (fst (show_signup_page latin1_methods 1 (str '' ab '') (str ''ann lee'')
        (init_database False) new_session))
      = ''Register number must be at least 3 characters long!''"
    by code_simp
  have d: "fst (register_student latin1_methods 1
        (str_upper latin1_methods (str_strip latin1_methods [32, 223, 49]))
        (str_title latin1_methods (str_strip latin1_methods (str '' ann lee '')))
        (init_database False))
      = (True, ''Registration successful!'')
     \<and> students (snd (register_student latin1_methods 1
        (str_upper latin1_methods (str_strip latin1_methods [32, 223, 49]))
        (str_title latin1_methods (str_strip latin1_methods (str '' ann lee '')))
        (init_database False)))
      = [\<lparr>register_number = str ''SS1'', name = str ''Ann Lee'', registration_time = 1\<rparr>]"
    by code_simp
  have e: "length (str_title latin1_methods (str_strip latin1_methods [97, 160])) < 2"
    by code_simp
  have f: "snd (fst (show_signup_page latin1_methods 1 (str ''ab12'') [97, 160]
        (init_database False) new_session))
      = ''Name must be at least 2 characters long!''"
    by code_simp
  have g: "\<not> is_student_registered latin1_methods (str ''ab'') (init_database False)"
    by code_simp
  note short = signup_form_validates_input
      [where py = latin1_methods and register_number_input = "str '' ab ''"
         and name_input = "str ''ann lee''" and now = 1
         and db = "init_database False" and ss = new_session]
  note long = signup_form_validates_input
      [where py = latin1_methods and register_number_input = "[32, 223, 49]"
         and name_input = "str '' ann lee ''" and now = 1
         and db = "init_database False" and ss = new_session]
  note name = signup_form_validates_input
      [where py = latin1_methods and register_number_input = "str ''ab12''"
         and name_input = "[97, 160]" and now = 1
         and db = "init_database False" and ss = new_session]
  note direct = signup_form_validates_input
      [where py = latin1_methods and register_number_input = "str ''ab''"
         and name_input = "str ''x''" and now = 1
         and db = "init_database False" and ss = new_session]
  from short a c
  have h: "show_signup_page latin1_methods 1 (str '' ab '') (str ''ann lee'')
        (init_database False) new_session
       = ((False, ''Register number must be at least 3 characters long!''),
          init_database False, new_session)"
    by (simp add: prod_eq_iff)
  from long b d
  have i: "fst (show_signup_page latin1_methods 1 [32, 223, 49] (str '' ann lee '')
        (init_database False) new_session)
       = (True, ''Registration successful!'')
     \<and> students (fst (snd (show_signup_page latin1_methods 1 [32, 223, 49] (str '' ann lee '')
        (init_database False) new_session)))
       = [\<lparr>register_number = str ''SS1'', name = str ''Ann Lee'', registration_time = 1\<rparr>]"
    by simp
  from name e f
  have j: "show_signup_page latin1_methods 1 (str ''ab12'') [97, 160] (init_database False)
        new_session
       = ((False, ''Name must be at least 2 characters long!''),
          init_database False, new_session)"
    by (simp add: prod_eq_iff)
  from direct g
  have k: "fst (fst (register_student latin1_methods 1 (str ''ab'') (str ''x'')
        (init_database False)))"
    by simp
  from a b e g h i j k show ?thesis by blast
qed

subsection \<open>Casting a vote\<close>

lemma cast_vote_registered:
  "is_student_registered py r db \<Longrightarrow>
   cast_vote py now r c db =
     (True, db\<lparr>votes := votes db @
                  [\<lparr>vote_id = votes_sequence db + 1,
                    vote_register_number = str_upper py (str_strip py r),
                    candidate = c, vote_time = now\<rparr>],
               votes_sequence := votes_sequence db + 1\<rparr>)"
  by (simp add: cast_vote_def is_student_registered_iff Let_def)

lemma vote_keys_cast_vote:
  "vote_keys (snd (cast_vote py now r c db)) =
     (if fst (cast_vote py now r c db) then vote_keys db @ [str_upper py (str_strip py r)]
      else vote_keys db)"
  by (simp add: cast_vote_def vote_keys_def Let_def)

lemma cast_vote_failed: "\<not> fst (cast_vote py now r c db) \<Longrightarrow> snd (cast_vote py now r c db) = db"
  by (simp add: cast_vote_def Let_def split: if_splits)

lemma show_voting_page_distinct:
  assumes "distinct (vote_keys db)"
  shows "distinct (vote_keys (show_voting_page py now messi_vote ronaldo_vote ss db))"
proof (cases "current_student ss")
  case None
  with assms show ?thesis by (simp add: show_voting_page_def Let_def)
next
  case (Some student)
  show ?thesis
  proof (cases "has_student_voted py student db")
    case True
    with assms Some show ?thesis by (simp add: show_voting_page_def Let_def)
  next
    case False
    then have fresh: "str_upper py (str_strip py student) \<notin> set (vote_keys db)"
      by (simp add: has_student_voted_iff)
    have "distinct (vote_keys (snd (cast_vote py now student c db)))" for c
      using assms fresh by (simp add: vote_keys_cast_vote)
    with assms Some show ?thesis by (simp add: show_voting_page_def Let_def)
  qed
qed

lemma voting_page_runs_distinct:
  "distinct (vote_keys db) \<Longrightarrow> distinct (vote_keys (voting_page_runs py runs db))"
proof (induction runs arbitrary: db)
  case Nil
  then show ?case by simp
next
  case (Cons run runs)
  obtain now messi_vote ronaldo_vote ss where run: "run = (now, messi_vote, ronaldo_vote, ss)"
    by (cases run)
  from Cons.prems have "distinct (vote_keys (show_voting_page py now messi_vote ronaldo_vote ss db))"
    by (rule show_voting_page_distinct)
  then show ?case by (simp add: run Cons.IH)
qed

lemma count_list_distinct_le: "distinct xs \<Longrightarrow> count_list xs x \<le> 1"
  by (induction xs) (auto simp: count_list_0_iff)

text \<open>
  C1, as stated, fails: \<open>cast_vote\<close> does not look for an earlier vote. The student of
  the example has voted at 15; a second call at 16 returns \<open>True\<close> and leaves two vote rows
  under the key.
\<close>

theorem cast_vote_second_vote_counterexample:
  "is_student_registered latin1_methods (str ''ab12'') voted_db
   \<and> has_student_voted latin1_methods (str ''ab12'') voted_db
   \<and> votes_recorded (str ''AB12'') voted_db = 1
   \<and> fst (cast_vote latin1_methods 16 (str ''ab12'') ''Ronaldo'' voted_db)
   \<and> votes_recorded (str ''AB12'') (snd (cast_vote latin1_methods 16 (str ''ab12'') ''Ronaldo'' voted_db)) = 2"
  by code_simp

text \<open>
  C1, amended. \<open>cast_vote\<close> holds no check against an earlier vote: for a registered
  student it succeeds and adds one row under the normalised register number, whatever is
  stored already. That a register number has at most one vote is kept by the voting page,
  which calls \<open>cast_vote\<close> only after \<open>has_student_voted\<close> has returned false: from a
  vote table with at most one row for each register number, every sequence of runs of the
  voting page leads to such a table again.
\<close>

theorem voting_page_keeps_one_vote:
  "(is_student_registered py r db \<longrightarrow>
       fst (cast_vote py now r c db)
       \<and> votes_recorded (str_upper py (str_strip py r)) (snd (cast_vote py now r c db))
           = votes_recorded (str_upper py (str_strip py r)) db + 1)
   \<and> (distinct (vote_keys db) \<longrightarrow>
       distinct (vote_keys (voting_page_runs py runs db))
       \<and> votes_recorded key (voting_page_runs py runs db) \<le> 1)"
proof (intro conjI impI)
  assume reg: "is_student_registered py r db"
  then show ok: "fst (cast_vote py now r c db)"
    by (simp add: cast_vote_registered)
  then show "votes_recorded (str_upper py (str_strip py r)) (snd (cast_vote py now r c db))
           = votes_recorded (str_upper py (str_strip py r)) db + 1"
    by (simp add: votes_recorded_def vote_keys_cast_vote)
next
  assume "distinct (vote_keys db)"
  then show d: "distinct (vote_keys (voting_page_runs py runs db))"
    by (rule voting_page_runs_distinct)
  then show "votes_recorded key (voting_page_runs py runs db) \<le> 1"
    unfolding votes_recorded_def by (rule count_list_distinct_le)
qed

theorem voting_page_keeps_one_vote_witness:
  "is_student_registered latin1_methods (str ''ab12'') scheduled_db
   \<and> fst (cast_vote latin1_methods 15 (str ''ab12'') ''Messi'' scheduled_db)
   \<and> votes_recorded (str ''AB12'') voted_db = 1
   \<and> distinct (vote_keys scheduled_db)
   \<and> votes_recorded (str ''AB12'')
        (voting_page_runs latin1_methods [(15, True, False, logged_in_session),
                           (16, False, True, logged_in_session)] scheduled_db) \<le> 1
   \<and> vote_keys
        (voting_page_runs latin1_methods [(15, True, False, logged_in_session),
                           (16, False, True, logged_in_session)] scheduled_db) = [(str ''AB12'')]"
proof -
  have a: "is_student_registered latin1_methods (str ''ab12'') scheduled_db"
    by code_simp
  have b: "distinct (vote_keys scheduled_db)"
    by code_simp
  have c: "str_upper latin1_methods (str_strip latin1_methods (str ''ab12'')) = (str ''AB12'')"
    by code_simp
  have d: "votes_recorded (str ''AB12'') scheduled_db = 0"
    by code_simp
  have e: "vote_keys
        (voting_page_runs latin1_methods [(15, True, False, logged_in_session),
                           (16, False, True, logged_in_session)] scheduled_db) = [(str ''AB12'')]"
    by code_simp
  from voting_page_keeps_one_vote
      [where py = latin1_methods and r = "(str ''ab12'')" and db = scheduled_db and now = 15 and c = "''Messi''"
         and runs = "[(15, True, False, logged_in_session),
                      (16, False, True, logged_in_session)]"
         and key = "(str ''AB12'')"]
    a b c d e
  show ?thesis by simp
qed

text \<open>
  C2, as stated, fails: at 21 the window of the example has ended, and \<open>cast_vote\<close>
  still returns \<open>True\<close> and writes the row.
\<close>

theorem cast_vote_window_ended_counterexample:
  "status (get_voting_time_status 21 scheduled_db) = ''ended''
   \<and> \<not> is_voting_active 21 scheduled_db
   \<and> fst (cast_vote latin1_methods 21 (str ''ab12'') ''Messi'' scheduled_db)
   \<and> votes_recorded (str ''AB12'') scheduled_db = 0
   \<and> votes_recorded (str ''AB12'') (snd (cast_vote latin1_methods 21 (str ''ab12'') ''Messi'' scheduled_db)) = 1"
  by code_simp

text \<open>
  C2, amended. \<open>cast_vote\<close> does not read the voting window: for a registered student
  it writes the vote row and returns \<open>True\<close> in every state of the schedule and at every
  time; whenever it returns \<open>False\<close>, no row has been written. The window is checked by
  the voting page before the call: a run of the page while \<open>can_vote\<close> is false, or with
  nobody logged in, leaves the database as it is.
\<close>

theorem cast_vote_ignores_window:
  "(is_student_registered py r db \<longrightarrow>
      cast_vote py now r c db =
        (True, db\<lparr>votes := votes db @
                     [\<lparr>vote_id = votes_sequence db + 1,
                       vote_register_number = str_upper py (str_strip py r),
                       candidate = c, vote_time = now\<rparr>],
                  votes_sequence := votes_sequence db + 1\<rparr>))
   \<and> (\<not> fst (cast_vote py now r c db) \<longrightarrow> snd (cast_vote py now r c db) = db)
   \<and> (\<not> can_vote (get_voting_time_status now db) \<or> \<not> student_logged_in ss \<longrightarrow>
        show_voting_page py now messi_vote ronaldo_vote ss db = db)"
proof (intro conjI impI)
  assume "is_student_registered py r db"
  then show "cast_vote py now r c db =
        (True, db\<lparr>votes := votes db @
                     [\<lparr>vote_id = votes_sequence db + 1,
                       vote_register_number = str_upper py (str_strip py r),
                       candidate = c, vote_time = now\<rparr>],
                  votes_sequence := votes_sequence db + 1\<rparr>)"
    by (rule cast_vote_registered)
next
  assume "\<not> fst (cast_vote py now r c db)"
  then show "snd (cast_vote py now r c db) = db"
    by (rule cast_vote_failed)
next
  assume "\<not> can_vote (get_voting_time_status now db) \<or> \<not> student_logged_in ss"
  then show "show_voting_page py now messi_vote ronaldo_vote ss db = db"
    by (auto simp: show_voting_page_def Let_def split: option.splits)
qed

theorem cast_vote_ignores_window_witness:
  "is_student_registered latin1_methods (str ''ab12'') scheduled_db
   \<and> fst (cast_vote latin1_methods 21 (str ''ab12'') ''Messi'' scheduled_db)
   \<and> \<not> can_vote (get_voting_time_status 21 scheduled_db)
   \<and> show_voting_page latin1_methods 21 True False logged_in_session scheduled_db = scheduled_db
   \<and> \<not> fst (cast_vote latin1_methods 21 (str ''zz99'') ''Messi'' scheduled_db)
   \<and> snd (cast_vote latin1_methods 21 (str ''zz99'') ''Messi'' scheduled_db) = scheduled_db"
proof -
  have a: "is_student_registered latin1_methods (str ''ab12'') scheduled_db"
    by code_simp
  have b: "\<not> can_vote (get_voting_time_status 21 scheduled_db)"
    by code_simp
  have c: "\<not> fst (cast_vote latin1_methods 21 (str ''zz99'') ''Messi'' scheduled_db)"
    by code_simp
  note registered = cast_vote_ignores_window
      [where py = latin1_methods and r = "(str ''ab12'')" and db = scheduled_db and now = 21 and c = "''Messi''"
         and ss = logged_in_session and messi_vote = True and ronaldo_vote = False]
  note unregistered = cast_vote_ignores_window
      [where py = latin1_methods and r = "(str ''zz99'')" and db = scheduled_db and now = 21 and c = "''Messi''"
         and ss = logged_in_session and messi_vote = True and ronaldo_vote = False]
  from registered unregistered a b c show ?thesis by simp
qed

subsection \<open>Normalised keys and the look-ups\<close>



subsection \<open>Automatic declaration\<close>

lemma distinct_fold_update:
  "distinct (map fst d) \<Longrightarrow>
   distinct (map fst (fold (\<lambda>(k, v) d. AList.update k v d) gs d))"
proof (induction gs arbitrary: d)
  case Nil
  then show ?case by simp
next
  case (Cons g gs)
  obtain k v where g: "g = (k, v)" by (cases g)
  from Cons.prems have "distinct (map fst (AList.update k v d))"
    by (rule distinct_update)
  then show ?case by (simp add: g Cons.IH)
qed

lemma keys_fold_update:
  "fst ` set (fold (\<lambda>(k, v) d. AList.update k v d) gs d) = fst ` set d \<union> fst ` set gs"
proof (induction gs arbitrary: d)
  case Nil
  show ?case by simp
next
  case (Cons g gs)
  obtain k v where g: "g = (k, v)" by (cases g)
  show ?case by (simp add: g Cons.IH dom_update Un_assoc)
qed

lemma sum_list_distinct_alist:
  "distinct (map fst al) \<Longrightarrow>
   sum_list (map snd al) = (\<Sum>k\<in>set (map fst al). the (map_of al k))"
proof (induction al)
  case Nil
  show ?case by simp
next
  case (Cons p al)
  obtain k v where p: "p = (k, v)" by (cases p)
  from Cons.prems have fresh: "k \<notin> set (map fst al)" and d: "distinct (map fst al)"
    by (simp_all add: p)
  have "(\<Sum>x\<in>set (map fst al). the (map_of (p # al) x)) =
        (\<Sum>x\<in>set (map fst al). the (map_of al x))"
    using fresh by (intro sum.cong) (auto simp: p)
  with fresh d show ?case by (simp add: p Cons.IH)
qed

lemma get_vote_results_lookup_any:
  "map_of (get_vote_results db) x =
     (if x \<in> set (map candidate (votes db)) \<or> x = ''Messi'' \<or> x = ''Ronaldo''
      then Some (count_list (map candidate (votes db)) x) else None)"
  unfolding get_vote_results_def map_of_fold_update map_of_group_by_candidate
  by (auto simp: count_list_0_iff)

lemma get_vote_results_keys:
  "set (map fst (get_vote_results db)) =
     {''Messi'', ''Ronaldo''} \<union> set (map candidate (votes db))"
  by (simp add: get_vote_results_def keys_fold_update group_by_candidate_def image_image)

lemma get_vote_results_total:
  "sum_list (map snd (get_vote_results db)) = get_total_votes db"
proof -
  let ?cs = "map candidate (votes db)"
  let ?K = "{''Messi'', ''Ronaldo''} \<union> set ?cs"
  have "distinct (map fst (get_vote_results db))"
    unfolding get_vote_results_def by (rule distinct_fold_update) simp
  then have "sum_list (map snd (get_vote_results db)) =
      (\<Sum>k\<in>?K. the (map_of (get_vote_results db) k))"
    by (simp only: sum_list_distinct_alist get_vote_results_keys)
  also have "\<dots> = (\<Sum>k\<in>?K. count_list ?cs k)"
    by (intro sum.cong refl) (auto simp: get_vote_results_lookup_any)
  also have "\<dots> = length ?cs"
    by (rule sum_count_set) auto
  finally show ?thesis by (simp add: get_total_votes_def)
qed

lemma resolve_winner_get_vote_results:
  "resolve_winner (get_vote_results db) =
     (if 0 < get_total_votes db then
        (if count_list (map candidate (votes db)) ''Ronaldo''
              < count_list (map candidate (votes db)) ''Messi'' then Some ''Messi''
         else if count_list (map candidate (votes db)) ''Messi''
              < count_list (map candidate (votes db)) ''Ronaldo'' then Some ''Ronaldo''
         else Some ''Tie'')
      else None)"
  by (simp only: resolve_winner_def Let_def get_vote_results_total get_vote_results_lookup_any
        simp_thms if_True option.sel)

lemma auto_declare_fires_iff:
  "fst (auto_declare_winner_if_time_ended now db ss) \<longleftrightarrow>
     map_option auto_declare_winner (get_voting_settings db) = Some True
     \<and> status (get_voting_time_status now db) = ''ended''
     \<and> \<not> winner_declared ss \<and> \<not> auto_declaration_processed ss
     \<and> 0 < get_total_votes db"
  by (auto simp: auto_declare_winner_if_time_ended_def resolve_winner_get_vote_results
           split: option.splits)

lemma auto_declare_fired_session:
  "fst (auto_declare_winner_if_time_ended now db ss) \<Longrightarrow>
   snd (auto_declare_winner_if_time_ended now db ss) =
     ss\<lparr>winner_declared := True, declared_winner := resolve_winner (get_vote_results db),
        auto_declared := True, auto_declaration_processed := True\<rparr>"
  by (auto simp: auto_declare_winner_if_time_ended_def split: option.splits if_splits)

lemma auto_declare_not_fired_session:
  "\<not> fst (auto_declare_winner_if_time_ended now db ss) \<Longrightarrow>
   snd (auto_declare_winner_if_time_ended now db ss) = ss"
  by (auto simp: auto_declare_winner_if_time_ended_def split: option.splits if_splits)

lemma set_schedule_form_accepted:
  "start_datetime < end_datetime \<Longrightarrow> india_now \<le> start_datetime \<Longrightarrow>
   set_schedule_form india_now start_datetime end_datetime auto_declare db ss =
     (db\<lparr>voting_settings :=
           [\<lparr>settings_id = 1, start_time = Some start_datetime,
             end_time = Some end_datetime, voting_enabled = True,
             auto_declare_winner = auto_declare,
             created_at = india_now, updated_at = india_now\<rparr>]\<rparr>,
      ss\<lparr>auto_declaration_processed := False\<rparr>)"
  by (simp add: set_schedule_form_def set_voting_time_def)

lemma auto_declare_keeps_invariant:
  "auto_declaration_processed ss \<longrightarrow> winner_declared ss \<Longrightarrow>
   auto_declaration_processed (snd (auto_declare_winner_if_time_ended now db ss)) \<longrightarrow>
   winner_declared (snd (auto_declare_winner_if_time_ended now db ss))"
  by (cases "fst (auto_declare_winner_if_time_ended now db ss)")
     (simp_all add: auto_declare_fired_session auto_declare_not_fired_session)

lemma clearing_marker_has_no_effect:
  "winner_declared ss \<Longrightarrow>
   auto_declare_winner_if_time_ended now db (ss\<lparr>auto_declaration_processed := False\<rparr>)
     = (False, ss\<lparr>auto_declaration_processed := False\<rparr>)"
  by (simp add: prod_eq_iff auto_declare_fires_iff auto_declare_not_fired_session)

text \<open>
  C5. The claim holds up to its last part: the declaration fires only in the state it
  names (\<open>auto_declare_fires_iff\<close>), sets the processed flag, and does not fire while the
  flag is set. The last part fails on the code. The Set Schedule form clears the processed
  flag when it replaces the schedule, so that the declaration can fire for the new window;
  but a declaration that has fired has also set \<open>winner_declared\<close>, which the form leaves
  set, and the declaration tests it too. So after a page load on which the declaration
  fired, and a new schedule accepted by the form on any database, the flag is cleared and
  the declaration still does not fire, at any later time and on any database. In the
  witness the new window from 30 to 40 has ended at 41 with a vote counted and automatic
  declaration asked for.
\<close>

theorem auto_declare_not_rearmed_by_new_schedule:
  "fst (auto_declare_winner_if_time_ended now db ss)
   \<and> start_datetime < end_datetime \<and> india_now \<le> start_datetime \<longrightarrow>
     \<not> auto_declaration_processed
         (snd (set_schedule_form india_now start_datetime end_datetime auto_declare db'
                 (init_session_state now db ss)))
   \<and> winner_declared
         (snd (set_schedule_form india_now start_datetime end_datetime auto_declare db'
                 (init_session_state now db ss)))
   \<and> \<not> fst (auto_declare_winner_if_time_ended now' db''
         (snd (set_schedule_form india_now start_datetime end_datetime auto_declare db'
                 (init_session_state now db ss))))"
proof
  assume a: "fst (auto_declare_winner_if_time_ended now db ss)
   \<and> start_datetime < end_datetime \<and> india_now \<le> start_datetime"
  then have declared: "winner_declared (init_session_state now db ss)"
    by (simp add: init_session_state_def auto_declare_fired_session)
  from a have form: "snd (set_schedule_form india_now start_datetime end_datetime
      auto_declare db' (init_session_state now db ss))
    = (init_session_state now db ss)\<lparr>auto_declaration_processed := False\<rparr>"
    by (simp add: set_schedule_form_accepted)
  show "\<not> auto_declaration_processed
         (snd (set_schedule_form india_now start_datetime end_datetime auto_declare db'
                 (init_session_state now db ss)))
   \<and> winner_declared
         (snd (set_schedule_form india_now start_datetime end_datetime auto_declare db'
                 (init_session_state now db ss)))
   \<and> \<not> fst (auto_declare_winner_if_time_ended now' db''
         (snd (set_schedule_form india_now start_datetime end_datetime auto_declare db'
                 (init_session_state now db ss))))"
    using declared by (simp add: form clearing_marker_has_no_effect)
qed

theorem auto_declare_not_rearmed_by_new_schedule_witness:
  "fst (auto_declare_winner_if_time_ended 21 voted_db new_session)
   \<and> declared_winner declared_session = Some ''Messi''
   \<and> \<not> auto_declaration_processed
        (snd (set_schedule_form 30 30 40 True voted_db declared_session))
   \<and> status (get_voting_time_status 41
        (fst (set_schedule_form 30 30 40 True voted_db declared_session))) = ''ended''
   \<and> map_option auto_declare_winner (get_voting_settings
        (fst (set_schedule_form 30 30 40 True voted_db declared_session))) = Some True
   \<and> get_total_votes (fst (set_schedule_form 30 30 40 True voted_db declared_session)) = 1
   \<and> \<not> fst (auto_declare_winner_if_time_ended 41
        (fst (set_schedule_form 30 30 40 True voted_db declared_session))
        (snd (set_schedule_form 30 30 40 True voted_db declared_session)))"
proof -
  have a: "fst (auto_declare_winner_if_time_ended 21 voted_db new_session)"
    by code_simp
  have b: "declared_winner declared_session = Some ''Messi''"
    by code_simp
  have c: "status (get_voting_time_status 41
        (fst (set_schedule_form 30 30 40 True voted_db declared_session))) = ''ended''
   \<and> map_option auto_declare_winner (get_voting_settings
        (fst (set_schedule_form 30 30 40 True voted_db declared_session))) = Some True
   \<and> get_total_votes (fst (set_schedule_form 30 30 40 True voted_db declared_session)) = 1"
    by code_simp
  have d: "(30::int) < 40 \<and> (30::int) \<le> 30"
    by simp
  from auto_declare_not_rearmed_by_new_schedule
      [where now = 21 and db = voted_db and ss = new_session and india_now = 30
         and start_datetime = 30 and end_datetime = 40 and auto_declare = True
         and db' = voted_db and now' = 41
         and db'' = "fst (set_schedule_form 30 30 40 True voted_db declared_session)"]
    a b c d
  show ?thesis by blast
qed

end
